theory Spec2Isabelle
  imports Main
begin

section \<open>The navigation history controller of the storefront app\<close>

text \<open>
  The storefront is one React component (\<^verbatim>\<open>App\<close>) that exists in two variants,
  \<^verbatim>\<open>src/script.js\<close> and \<^verbatim>\<open>src/unnamed/part_000\<close>. Its navigation core is the
  state \<^verbatim>\<open>navStack\<close>, the two refs \<^verbatim>\<open>allowExitRef\<close> and
  \<^verbatim>\<open>exitConfirmationShownRef\<close>, the \<^verbatim>\<open>popstate\<close> listener
  \<^verbatim>\<open>handlePopState\<close>, and the callbacks \<^verbatim>\<open>pushNavState\<close>, \<^verbatim>\<open>navigateTo\<close>,
  \<^verbatim>\<open>handleLogout\<close>, \<^verbatim>\<open>handleExitConfirm\<close> and \<^verbatim>\<open>handleExitCancel\<close>.

  Every one of these functions is straight-line code under a few tests of the current
  state. Each is embedded as the list of primitive statements it executes, in source
  order, chosen by those tests; a small interpreter executes the statements on a record
  of the component's state. The calls to \<^verbatim>\<open>window.history\<close> are the only statements
  that can throw; none of them is inside a \<^verbatim>\<open>try\<close>. A call of a React state
  setter is an assignment at the place of the call: the handlers read only refs and the
  argument of an updater, which is the latest value, so they cannot observe that React
  applies the new value at the next render.
\<close>

subsection \<open>Data\<close>

text \<open>
  The objects pushed on \<^verbatim>\<open>navStack\<close>: \<^verbatim>\<open>{type:'home'}\<close>,
  \<^verbatim>\<open>{type:'tab', value}\<close>, \<^verbatim>\<open>{type:'product', id}\<close>, \<^verbatim>\<open>{type:'cms'}\<close> and
  \<^verbatim>\<open>{type:'affiliate-tab', tab}\<close>. No call of \<^verbatim>\<open>pushNavState\<close> in either file
  builds any other shape.
\<close>

datatype nav_entry =
    Home
  | Tab string
  | Product int
  | Cms
  | AffiliateTab string

text \<open>A catalog item; of its fields the navigation code reads only \<^verbatim>\<open>id\<close>.\<close>

record product =
  product_id :: int
  product_name :: string

text \<open>
  The third argument of \<^verbatim>\<open>pushState\<close>/\<^verbatim>\<open>replaceState\<close>: the unchanged
  \<^verbatim>\<open>window.location.href\<close>, the fragment \<^verbatim>\<open>`#product-${id}`\<close>, or \<^verbatim>\<open>'#'\<close>.
\<close>

datatype url = Href | ProductFragment int | EmptyFragment

text \<open>
  A call on \<^verbatim>\<open>window.history\<close>. The first argument of \<^verbatim>\<open>PushState\<close> is the state
  payload (\<^verbatim>\<open>null\<close> is \<open>None\<close>).
\<close>

datatype hist_op =
    PushState "nav_entry option" url
  | ReplaceState "nav_entry option" url
  | Back

datatype error = HistoryError hist_op

text \<open>The \<^verbatim>\<open>modal\<close> state set by \<^verbatim>\<open>showModal\<close>.\<close>

record modal_state =
  isOpen :: bool
  title :: string
  message :: string
  mtype :: string

text \<open>
  The part of the component's state that the navigation code reads or writes.
  \<open>products\<close>, \<open>isAdmin\<close> and \<open>isAffiliate\<close> also stand for \<^verbatim>\<open>productsRef\<close>,
  \<^verbatim>\<open>isAdminRef\<close> and \<^verbatim>\<open>isAffiliateRef\<close>, which the "Update refs" effects copy
  from them after every render. \<open>physical\<close> is the log of the calls made on
  \<^verbatim>\<open>window.history\<close> that returned, oldest first.
\<close>

record app =
  navStack :: "nav_entry list"
  allowExitRef :: bool
  exitConfirmationShownRef :: bool
  showExitConfirmation :: bool
  activeTab :: string
  selectedProduct :: "product option"
  showCMS :: bool
  affiliateActiveTab :: string
  isLoggedIn :: bool
  isAdmin :: bool
  isAffiliate :: bool
  currentUser :: "string option"
  modal :: modal_state
  initialHashChecked :: bool
  products :: "product list"
  physical :: "hist_op list"

subsection \<open>Statements and their execution\<close>

datatype stmt =
    SetAllowExit bool
  | SetExitConfirmationShown bool
  | SetShowExitConfirmation bool
  | SetNavStack "nav_entry list"
  | SetActiveTab string
  | SetSelectedProduct "product option"
  | SetShowCMS bool
  | SetAffiliateActiveTab string
  | SetIsLoggedIn bool
  | SetIsAdmin bool
  | SetIsAffiliate bool
  | SetCurrentUser "string option"
  | ShowModal string string string
  | SetInitialHashChecked bool
  | History hist_op

text \<open>
  \<open>throws h\<close> says whether the browser makes the call \<open>h\<close> throw (or
  \<^verbatim>\<open>window.history\<close> is unavailable). A statement that throws leaves the state as
  it was before it; the exception carries that state along, since nothing rolls the
  earlier assignments back.
\<close>

fun exec :: "(hist_op \<Rightarrow> bool) \<Rightarrow> stmt \<Rightarrow> app \<Rightarrow> (error \<times> app) + app" where
  "exec throws (SetAllowExit b) s = Inr (s\<lparr>allowExitRef := b\<rparr>)"
| "exec throws (SetExitConfirmationShown b) s = Inr (s\<lparr>exitConfirmationShownRef := b\<rparr>)"
| "exec throws (SetShowExitConfirmation b) s = Inr (s\<lparr>showExitConfirmation := b\<rparr>)"
| "exec throws (SetNavStack st) s = Inr (s\<lparr>navStack := st\<rparr>)"
| "exec throws (SetActiveTab t) s = Inr (s\<lparr>activeTab := t\<rparr>)"
| "exec throws (SetSelectedProduct p) s = Inr (s\<lparr>selectedProduct := p\<rparr>)"
| "exec throws (SetShowCMS b) s = Inr (s\<lparr>showCMS := b\<rparr>)"
| "exec throws (SetAffiliateActiveTab t) s = Inr (s\<lparr>affiliateActiveTab := t\<rparr>)"
| "exec throws (SetIsLoggedIn b) s = Inr (s\<lparr>isLoggedIn := b\<rparr>)"
| "exec throws (SetIsAdmin b) s = Inr (s\<lparr>isAdmin := b\<rparr>)"
| "exec throws (SetIsAffiliate b) s = Inr (s\<lparr>isAffiliate := b\<rparr>)"
| "exec throws (SetCurrentUser u) s = Inr (s\<lparr>currentUser := u\<rparr>)"
| "exec throws (ShowModal t m ty) s =
     Inr (s\<lparr>modal := \<lparr>isOpen = True, title = t, message = m, mtype = ty\<rparr>\<rparr>)"
| "exec throws (SetInitialHashChecked b) s = Inr (s\<lparr>initialHashChecked := b\<rparr>)"
| "exec throws (History h) s =
     (if throws h then Inl (HistoryError h, s) else Inr (s\<lparr>physical := physical s @ [h]\<rparr>))"

text \<open>Statements run in order; the first one that throws ends the function.\<close>

fun run :: "(hist_op \<Rightarrow> bool) \<Rightarrow> stmt list \<Rightarrow> app \<Rightarrow> (error \<times> app) + app" where
  "run throws [] s = Inr s"
| "run throws (c # cs) s =
     (case exec throws c s of Inl e \<Rightarrow> Inl e | Inr s' \<Rightarrow> run throws cs s')"

text \<open>Every state the function passes through, from the one it starts in to its last.\<close>

fun trace :: "(hist_op \<Rightarrow> bool) \<Rightarrow> stmt list \<Rightarrow> app \<Rightarrow> app list" where
  "trace throws [] s = [s]"
| "trace throws (c # cs) s =
     s # (case exec throws c s of Inl e \<Rightarrow> [] | Inr s' \<Rightarrow> trace throws cs s')"

text \<open>The state the component is left in, whether the function returned or threw.\<close>

fun state_after :: "(error \<times> app) + app \<Rightarrow> app" where
  "state_after (Inl (e, s)) = s"
| "state_after (Inr s) = s"

text \<open>A browser whose history calls all return, and one whose calls all throw.\<close>

definition history_works :: "hist_op \<Rightarrow> bool" where
  "history_works h = False"

definition history_broken :: "hist_op \<Rightarrow> bool" where
  "history_broken h = True"

subsection \<open>The controller of \<^verbatim>\<open>src/script.js\<close>\<close>

text \<open>\<^verbatim>\<open>String.prototype.startsWith\<close>.\<close>

definition startsWith :: "string \<Rightarrow> string \<Rightarrow> bool" where
  "startsWith s p = (take (length p) s = p)"

text \<open>
  The effect that checks the address once after the page has loaded (lines 788-801).
  \<open>hash\<close> is \<^verbatim>\<open>window.location.hash\<close> and \<open>productId\<close> is the value of
  \<^verbatim>\<open>parseInt(hash.replace('#product-', ''))\<close>, a built-in of the language, with
  \<open>None\<close> for \<^verbatim>\<open>NaN\<close> (which is equal to no \<^verbatim>\<open>id\<close>).
\<close>

definition checkUrlHash_body :: "string \<Rightarrow> int option \<Rightarrow> app \<Rightarrow> stmt list" where
  "checkUrlHash_body hash productId s =
     (if \<not> initialHashChecked s then
        (if startsWith hash ''#product-'' then
           (case productId of
              None \<Rightarrow> []
            | Some n \<Rightarrow>
                (case find (\<lambda>p. product_id p = n) (products s) of
                   Some p \<Rightarrow> [SetSelectedProduct (Some p), SetActiveTab ''home'']
                 | None \<Rightarrow> []))
         else [])
        @ [SetInitialHashChecked True]
      else [])"

text \<open>
  The effect on \<^verbatim>\<open>[selectedProduct]\<close> (lines 803-811); \<open>hash\<close> is
  \<^verbatim>\<open>window.location.hash\<close> when it runs.
\<close>

definition selectedProductEffect :: "string \<Rightarrow> app \<Rightarrow> stmt list" where
  "selectedProductEffect hash s =
     (case selectedProduct s of
        Some p \<Rightarrow> [History (PushState None (ProductFragment (product_id p)))]
      | None \<Rightarrow>
          if startsWith hash ''#product-'' then [History (PushState None EmptyFragment)]
          else [])"

text \<open>
  The chain of tests on \<^verbatim>\<open>prevState.type\<close> inside the updater of
  \<^verbatim>\<open>handlePopState\<close> (lines 839-864).
\<close>

fun restore :: "app \<Rightarrow> nav_entry \<Rightarrow> stmt list" where
  "restore s Home =
     [SetActiveTab ''home'', SetSelectedProduct None, SetShowCMS False]
     @ (if isAffiliate s then [SetAffiliateActiveTab ''home''] else [])"
| "restore s (Tab v) = [SetActiveTab v, SetSelectedProduct None, SetShowCMS False]"
| "restore s (Product i) =
     (case find (\<lambda>p. product_id p = i) (products s) of
        Some p \<Rightarrow> [SetSelectedProduct (Some p)]
      | None \<Rightarrow> [SetSelectedProduct None, SetActiveTab ''home''])"
| "restore s Cms = (if isAdmin s then [SetShowCMS True] else [])"
| "restore s (AffiliateTab t) = (if isAffiliate s then [SetAffiliateActiveTab t] else [])"

text \<open>
  \<^verbatim>\<open>handlePopState\<close> (lines 815-868). \<^verbatim>\<open>currentStack.slice(0, -1)\<close> is
  \<open>butlast\<close>; \<^verbatim>\<open>newStack[newStack.length - 1]\<close> is read only where
  \<^verbatim>\<open>currentStack.length\<close> is at least 2, so \<open>newStack\<close> is not empty there. The
  statements of the updater passed to \<^verbatim>\<open>setNavStack\<close> stand where React runs it, in
  their order, and the value the updater returns is the last assignment to
  \<^verbatim>\<open>navStack\<close>.

  This is exact whenever the trap push returns, and in the first two branches and the
  pop branch in any case. The trap push of the floor branch (lines 829-834) is inside
  the updater: if it throws there, the listener itself returns and the exception
  surfaces while React renders, which takes the component down. The embedding reports
  that exception as leaving the handler, with the two assignments before it made, so
  for this one path it shows the state the page would be in had it stayed up.
\<close>

definition handlePopState_body :: "app \<Rightarrow> stmt list" where
  "handlePopState_body s =
     (if allowExitRef s then [SetAllowExit False]
      else if exitConfirmationShownRef s then
        [SetExitConfirmationShown False,
         SetShowExitConfirmation False,
         History (PushState None Href)]
      else
        (let currentStack = navStack s in
         if length currentStack \<le> 1 then
           [SetExitConfirmationShown True,
            SetShowExitConfirmation True,
            History (PushState None Href),
            SetNavStack currentStack]
         else
           (let newStack = butlast currentStack;
                prevState = last newStack
            in restore s prevState @ [SetNavStack newStack])))"

definition handlePopState :: "(hist_op \<Rightarrow> bool) \<Rightarrow> app \<Rightarrow> (error \<times> app) + app" where
  "handlePopState throws s = run throws (handlePopState_body s) s"

text \<open>\<^verbatim>\<open>pushNavState\<close> (lines 879-882).\<close>

definition pushNavState_body :: "nav_entry \<Rightarrow> app \<Rightarrow> stmt list" where
  "pushNavState_body navState s =
     [SetNavStack (navStack s @ [navState]),
      History (PushState (Some navState) Href)]"

definition pushNavState :: "(hist_op \<Rightarrow> bool) \<Rightarrow> nav_entry \<Rightarrow> app \<Rightarrow> (error \<times> app) + app" where
  "pushNavState throws navState s = run throws (pushNavState_body navState s) s"

text \<open>
  \<^verbatim>\<open>navigateTo\<close> (lines 884-890). Every caller passes a tab name, so the test
  \<^verbatim>\<open>typeof target === 'string'\<close> holds.
\<close>

definition navigateTo_body :: "string \<Rightarrow> app \<Rightarrow> stmt list" where
  "navigateTo_body target s =
     [SetActiveTab target, SetSelectedProduct None]
     @ pushNavState_body (Tab target) (s\<lparr>activeTab := target, selectedProduct := None\<rparr>)"

definition navigateTo :: "(hist_op \<Rightarrow> bool) \<Rightarrow> string \<Rightarrow> app \<Rightarrow> (error \<times> app) + app" where
  "navigateTo throws target s = run throws (navigateTo_body target s) s"

text \<open>\<^verbatim>\<open>handleLogout\<close> (lines 1594-1604).\<close>

definition handleLogout_body :: "stmt list" where
  "handleLogout_body =
     [SetIsLoggedIn False,
      SetIsAdmin False,
      SetIsAffiliate False,
      SetCurrentUser None,
      SetShowCMS False,
      SetActiveTab ''home'',
      SetAffiliateActiveTab ''home'',
      SetNavStack [Home],
      ShowModal ''Logged Out'' ''You have been successfully logged out.'' ''info'']"

definition handleLogout :: "(hist_op \<Rightarrow> bool) \<Rightarrow> app \<Rightarrow> (error \<times> app) + app" where
  "handleLogout throws s = run throws handleLogout_body s"

text \<open>\<^verbatim>\<open>handleExitConfirm\<close> (lines 1611-1616).\<close>

definition handleExitConfirm_body :: "stmt list" where
  "handleExitConfirm_body =
     [SetExitConfirmationShown False,
      SetShowExitConfirmation False,
      SetAllowExit True,
      History Back]"

definition handleExitConfirm :: "(hist_op \<Rightarrow> bool) \<Rightarrow> app \<Rightarrow> (error \<times> app) + app" where
  "handleExitConfirm throws s = run throws handleExitConfirm_body s"

text \<open>\<^verbatim>\<open>handleExitCancel\<close> (lines 1618-1622).\<close>

definition handleExitCancel_body :: "stmt list" where
  "handleExitCancel_body =
     [SetExitConfirmationShown False,
      SetShowExitConfirmation False,
      History (PushState None Href)]"

definition handleExitCancel :: "(hist_op \<Rightarrow> bool) \<Rightarrow> app \<Rightarrow> (error \<times> app) + app" where
  "handleExitCancel throws s = run throws handleExitCancel_body s"

text \<open>
  The click handler of a product card (lines 2359-2362):
  \<^verbatim>\<open>setSelectedProduct(product); pushNavState({ type: 'product', id: product.id })\<close>.
\<close>

definition productClick_body :: "product \<Rightarrow> app \<Rightarrow> stmt list" where
  "productClick_body p s =
     SetSelectedProduct (Some p)
     # pushNavState_body (Product (product_id p)) (s\<lparr>selectedProduct := Some p\<rparr>)"

text \<open>
  What the effect that registers \<^verbatim>\<open>handlePopState\<close> does to the history when the
  component mounts (lines 872-874); \<open>hasState\<close> is whether
  \<^verbatim>\<open>window.history.state\<close> is set.
\<close>

definition historyStackEffect_body :: "bool \<Rightarrow> stmt list" where
  "historyStackEffect_body hasState =
     (if \<not> hasState then [History (ReplaceState (Some Home) Href)] else [])"

subsection \<open>The controller of \<^verbatim>\<open>src/unnamed/part_000\<close>\<close>

text \<open>
  The second variant of the app, translated from its own text: the effect that checks
  the address (lines 484-497), the effect on \<^verbatim>\<open>[selectedProduct]\<close> (lines 500-508), \<^verbatim>\<open>handlePopState\<close> (lines 513-576),
  \<^verbatim>\<open>pushNavState\<close> (lines 589-592), \<^verbatim>\<open>navigateTo\<close> (lines 595-601),
  \<^verbatim>\<open>handleLogout\<close> (lines 1217-1228), \<^verbatim>\<open>handleExitConfirm\<close> (lines 1237-1242)
  and \<^verbatim>\<open>handleExitCancel\<close> (lines 1245-1250).
\<close>

definition part000_checkUrlHash_body :: "string \<Rightarrow> int option \<Rightarrow> app \<Rightarrow> stmt list" where
  "part000_checkUrlHash_body hash productId s =
     (if \<not> initialHashChecked s then
        (if startsWith hash ''#product-'' then
           (case productId of
              None \<Rightarrow> []
            | Some n \<Rightarrow>
                (case find (\<lambda>p. product_id p = n) (products s) of
                   Some p \<Rightarrow> [SetSelectedProduct (Some p), SetActiveTab ''home'']
                 | None \<Rightarrow> []))
         else [])
        @ [SetInitialHashChecked True]
      else [])"

definition part000_selectedProductEffect :: "string \<Rightarrow> app \<Rightarrow> stmt list" where
  "part000_selectedProductEffect hash s =
     (case selectedProduct s of
        Some p \<Rightarrow> [History (PushState None (ProductFragment (product_id p)))]
      | None \<Rightarrow>
          if startsWith hash ''#product-'' then [History (PushState None EmptyFragment)]
          else [])"

fun part000_restore :: "app \<Rightarrow> nav_entry \<Rightarrow> stmt list" where
  "part000_restore s Home =
     [SetActiveTab ''home'', SetSelectedProduct None, SetShowCMS False]
     @ (if isAffiliate s then [SetAffiliateActiveTab ''home''] else [])"
| "part000_restore s (Tab v) = [SetActiveTab v, SetSelectedProduct None, SetShowCMS False]"
| "part000_restore s (Product i) =
     (case find (\<lambda>p. product_id p = i) (products s) of
        Some p \<Rightarrow> [SetSelectedProduct (Some p)]
      | None \<Rightarrow> [SetSelectedProduct None, SetActiveTab ''home''])"
| "part000_restore s Cms = (if isAdmin s then [SetShowCMS True] else [])"
| "part000_restore s (AffiliateTab t) =
     (if isAffiliate s then [SetAffiliateActiveTab t] else [])"

definition part000_handlePopState_body :: "app \<Rightarrow> stmt list" where
  "part000_handlePopState_body s =
     (if allowExitRef s then [SetAllowExit False]
      else if exitConfirmationShownRef s then
        [SetExitConfirmationShown False,
         SetShowExitConfirmation False,
         History (PushState None Href)]
      else
        (let currentStack = navStack s in
         if length currentStack \<le> 1 then
           [SetExitConfirmationShown True,
            SetShowExitConfirmation True,
            History (PushState None Href),
            SetNavStack currentStack]
         else
           (let newStack = butlast currentStack;
                prevState = last newStack
            in part000_restore s prevState @ [SetNavStack newStack])))"

definition part000_pushNavState_body :: "nav_entry \<Rightarrow> app \<Rightarrow> stmt list" where
  "part000_pushNavState_body navState s =
     [SetNavStack (navStack s @ [navState]),
      History (PushState (Some navState) Href)]"

definition part000_navigateTo_body :: "string \<Rightarrow> app \<Rightarrow> stmt list" where
  "part000_navigateTo_body target s =
     [SetActiveTab target, SetSelectedProduct None]
     @ part000_pushNavState_body (Tab target)
         (s\<lparr>activeTab := target, selectedProduct := None\<rparr>)"

definition part000_handleLogout_body :: "stmt list" where
  "part000_handleLogout_body =
     [SetIsLoggedIn False,
      SetIsAdmin False,
      SetIsAffiliate False,
      SetCurrentUser None,
      SetShowCMS False,
      SetActiveTab ''home'',
      SetAffiliateActiveTab ''home'',
      SetNavStack [Home],
      ShowModal ''Logged Out'' ''You have been successfully logged out.'' ''info'']"

definition part000_handleExitConfirm_body :: "stmt list" where
  "part000_handleExitConfirm_body =
     [SetExitConfirmationShown False,
      SetShowExitConfirmation False,
      SetAllowExit True,
      History Back]"

definition part000_handleExitCancel_body :: "stmt list" where
  "part000_handleExitCancel_body =
     [SetExitConfirmationShown False,
      SetShowExitConfirmation False,
      History (PushState None Href)]"

text \<open>The click handler of a product card (lines 2032-2035).\<close>

definition part000_productClick_body :: "product \<Rightarrow> app \<Rightarrow> stmt list" where
  "part000_productClick_body p s =
     SetSelectedProduct (Some p)
     # part000_pushNavState_body (Product (product_id p)) (s\<lparr>selectedProduct := Some p\<rparr>)"

text \<open>The mount part of the effect that registers the listener (lines 581-583).\<close>

definition part000_historyStackEffect_body :: "bool \<Rightarrow> stmt list" where
  "part000_historyStackEffect_body hasState =
     (if \<not> hasState then [History (ReplaceState (Some Home) Href)] else [])"

subsection \<open>Events\<close>

text \<open>
  What reaches the controller from outside: a call of \<^verbatim>\<open>pushNavState\<close> or
  \<^verbatim>\<open>navigateTo\<close> by the view, a \<^verbatim>\<open>popstate\<close> notification, the two buttons of
  the exit dialog, a logout, a click on a product card, React running the effect
  on \<^verbatim>\<open>[selectedProduct]\<close> (with the value of \<^verbatim>\<open>window.location.hash\<close> at that
  moment), React running the mount effect of the listener (with whether
  \<^verbatim>\<open>window.history.state\<close> is set), and React running the effect that checks the
  address, by which a page loaded at \<^verbatim>\<open>#product-<id>\<close> opens that product. These are all the places of either file
  that assign \<^verbatim>\<open>navStack\<close>, \<^verbatim>\<open>allowExitRef\<close> or
  \<^verbatim>\<open>exitConfirmationShownRef\<close>, or call \<^verbatim>\<open>pushState\<close> or
  \<^verbatim>\<open>replaceState\<close>.
\<close>

datatype event =
    PushNavState nav_entry
  | NavigateTo string
  | PopState
  | ExitConfirm
  | ExitCancel
  | Logout
  | ProductClick product
  | SelectedProductEffect string
  | HistoryStackEffect bool
  | CheckUrlHash string "int option"

fun body :: "event \<Rightarrow> app \<Rightarrow> stmt list" where
  "body (PushNavState e) s = pushNavState_body e s"
| "body (NavigateTo t) s = navigateTo_body t s"
| "body PopState s = handlePopState_body s"
| "body ExitConfirm s = handleExitConfirm_body"
| "body ExitCancel s = handleExitCancel_body"
| "body Logout s = handleLogout_body"
| "body (ProductClick p) s = productClick_body p s"
| "body (SelectedProductEffect hash) s = selectedProductEffect hash s"
| "body (HistoryStackEffect hasState) s = historyStackEffect_body hasState"
| "body (CheckUrlHash hash productId) s = checkUrlHash_body hash productId s"

fun part000_body :: "event \<Rightarrow> app \<Rightarrow> stmt list" where
  "part000_body (PushNavState e) s = part000_pushNavState_body e s"
| "part000_body (NavigateTo t) s = part000_navigateTo_body t s"
| "part000_body PopState s = part000_handlePopState_body s"
| "part000_body ExitConfirm s = part000_handleExitConfirm_body"
| "part000_body ExitCancel s = part000_handleExitCancel_body"
| "part000_body Logout s = part000_handleLogout_body"
| "part000_body (ProductClick p) s = part000_productClick_body p s"
| "part000_body (SelectedProductEffect hash) s = part000_selectedProductEffect hash s"
| "part000_body (HistoryStackEffect hasState) s = part000_historyStackEffect_body hasState"
| "part000_body (CheckUrlHash hash productId) s = part000_checkUrlHash_body hash productId s"

text \<open>
  The events are handled one after the other (the page has one thread). An exception
  that leaves a handler is reported by the browser and the page goes on from the state
  the handler left. Where the code would instead lose the component (a history call
  that throws inside the updater of the floor branch or inside an effect), the page has
  no later states at all; \<open>deliver\<close> goes on all the same, so under a throwing
  history it describes at least the states the page can reach; with a history whose
  calls return, every handler behaves as embedded.
\<close>

fun deliver :: "(hist_op \<Rightarrow> bool) \<Rightarrow> event list \<Rightarrow> app \<Rightarrow> app" where
  "deliver throws [] s = s"
| "deliver throws (ev # evs) s =
     deliver throws evs (state_after (run throws (body ev s) s))"

fun part000_deliver :: "(hist_op \<Rightarrow> bool) \<Rightarrow> event list \<Rightarrow> app \<Rightarrow> app" where
  "part000_deliver throws [] s = s"
| "part000_deliver throws (ev # evs) s =
     part000_deliver throws evs (state_after (run throws (part000_body ev s) s))"

text \<open>Every state the page passes through while the events are handled.\<close>

fun instants :: "(hist_op \<Rightarrow> bool) \<Rightarrow> event list \<Rightarrow> app \<Rightarrow> app list" where
  "instants throws [] s = [s]"
| "instants throws (ev # evs) s =
     trace throws (body ev s) s
     @ instants throws evs (state_after (run throws (body ev s) s))"

text \<open>
  The state after the \<^verbatim>\<open>useState\<close>/\<^verbatim>\<open>useRef\<close> initialisers (lines 545-749);
  the catalog and the session are read from \<^verbatim>\<open>localStorage\<close>.
\<close>

definition initial :: "product list \<Rightarrow> bool \<Rightarrow> bool \<Rightarrow> bool \<Rightarrow> string option \<Rightarrow> app" where
  "initial ps loggedIn admin affiliate user =
     \<lparr>navStack = [Home],
      allowExitRef = False,
      exitConfirmationShownRef = False,
      showExitConfirmation = False,
      activeTab = ''home'',
      selectedProduct = None,
      showCMS = False,
      affiliateActiveTab = ''home'',
      isLoggedIn = loggedIn,
      isAdmin = admin,
      isAffiliate = affiliate,
      currentUser = user,
      modal = \<lparr>isOpen = False, title = [], message = [], mtype = ''success''\<rparr>,
      initialHashChecked = False,
      products = ps,
      physical = []\<rparr>"

subsection \<open>Predicates and counters used by the properties\<close>

text \<open>The stack has its floor: it is not empty and starts with \<open>Home\<close>.\<close>

definition has_floor :: "nav_entry list \<Rightarrow> bool" where
  "has_floor st = (case st of [] \<Rightarrow> False | e # _ \<Rightarrow> e = Home)"

text \<open>The two flags of the exit guard are not both set.\<close>

definition guard_exclusive :: "app \<Rightarrow> bool" where
  "guard_exclusive s = (\<not> (allowExitRef s \<and> exitConfirmationShownRef s))"

text \<open>
  The kinds of \<^verbatim>\<open>pushState\<close> calls in the log: the one of \<^verbatim>\<open>pushNavState\<close>
  carries the entry and keeps the address; a trap push carries \<^verbatim>\<open>null\<close> and keeps
  the address; the effect on \<^verbatim>\<open>[selectedProduct]\<close> carries \<^verbatim>\<open>null\<close> and sets a
  fragment.
\<close>

fun is_push :: "hist_op \<Rightarrow> bool" where
  "is_push (PushState _ _) = True"
| "is_push _ = False"

fun is_trap_push :: "hist_op \<Rightarrow> bool" where
  "is_trap_push (PushState None Href) = True"
| "is_trap_push _ = False"

fun is_nav_push :: "hist_op \<Rightarrow> bool" where
  "is_nav_push (PushState (Some _) Href) = True"
| "is_nav_push _ = False"

fun is_fragment_push :: "hist_op \<Rightarrow> bool" where
  "is_fragment_push (PushState _ (ProductFragment _)) = True"
| "is_fragment_push (PushState _ EmptyFragment) = True"
| "is_fragment_push _ = False"

definition count_ops :: "(hist_op \<Rightarrow> bool) \<Rightarrow> hist_op list \<Rightarrow> nat" where
  "count_ops P log = length (filter P log)"

text \<open>The physical pushes that are not trap pushes.\<close>

definition counted_pushes :: "hist_op list \<Rightarrow> nat" where
  "counted_pushes log = count_ops is_push log - count_ops is_trap_push log"

text \<open>The events that call \<^verbatim>\<open>pushNavState\<close>.\<close>

fun calls_pushNavState :: "event \<Rightarrow> bool" where
  "calls_pushNavState (PushNavState _) = True"
| "calls_pushNavState (NavigateTo _) = True"
| "calls_pushNavState (ProductClick _) = True"
| "calls_pushNavState _ = False"

fun shrinks_stack :: "event \<Rightarrow> bool" where
  "shrinks_stack PopState = True"
| "shrinks_stack Logout = True"
| "shrinks_stack _ = False"

text \<open>
  The events that run the effect on \<^verbatim>\<open>[selectedProduct]\<close>, and the events whose
  handler contains a trap push.
\<close>

fun runs_selectedProductEffect :: "event \<Rightarrow> bool" where
  "runs_selectedProductEffect (SelectedProductEffect _) = True"
| "runs_selectedProductEffect _ = False"

fun may_trap :: "event \<Rightarrow> bool" where
  "may_trap PopState = True"
| "may_trap ExitCancel = True"
| "may_trap _ = False"

text \<open>
  The issuers of the pushes that carry no entry. A fragment push is expected of a run
  of the effect on \<^verbatim>\<open>[selectedProduct]\<close> in a state where a product is selected
  or the address ends in a product fragment, and of nothing else. A trap push is
  expected of the "NO" button of the exit dialog, and of a back notification that
  finds \<open>allowExitRef\<close> clear and either the dialog showing or the stack at its
  floor, and of nothing else.
\<close>

fun issues_fragment_push :: "event \<Rightarrow> app \<Rightarrow> bool" where
  "issues_fragment_push (SelectedProductEffect hash) s =
     (selectedProduct s \<noteq> None \<or> startsWith hash ''#product-'')"
| "issues_fragment_push _ s = False"

fun issues_trap_push :: "event \<Rightarrow> app \<Rightarrow> bool" where
  "issues_trap_push ExitCancel s = True"
| "issues_trap_push PopState s =
     (\<not> allowExitRef s \<and> (exitConfirmationShownRef s \<or> length (navStack s) \<le> 1))"
| "issues_trap_push _ s = False"

section \<open>Properties\<close>

subsection \<open>Auxiliary facts\<close>

lemmas body_defs =
  pushNavState_body_def navigateTo_body_def handlePopState_body_def
  handleExitConfirm_body_def handleExitCancel_body_def handleLogout_body_def
  productClick_body_def selectedProductEffect_def historyStackEffect_body_def
  checkUrlHash_body_def

lemmas part000_body_defs =
  part000_pushNavState_body_def part000_navigateTo_body_def part000_handlePopState_body_def
  part000_handleExitConfirm_body_def part000_handleExitCancel_body_def
  part000_handleLogout_body_def part000_productClick_body_def
  part000_selectedProductEffect_def part000_historyStackEffect_body_def
  part000_checkUrlHash_body_def

lemma run_append:
  "run throws (cs @ ds) s =
     (case run throws cs s of Inl e \<Rightarrow> Inl e | Inr s' \<Rightarrow> run throws ds s')"
  by (induction cs arbitrary: s) (simp_all split: sum.split)

lemma trace_head: "list_all P (trace throws cs s) \<Longrightarrow> P s"
  by (cases cs) simp_all

lemma list_all_trace_append:
  "list_all P (trace throws (cs @ ds) s) =
     (list_all P (trace throws cs s)
      \<and> (case run throws cs s of Inl e \<Rightarrow> True | Inr s' \<Rightarrow> list_all P (trace throws ds s')))"
  by (induction cs arbitrary: s) (auto split: sum.split dest: trace_head)

text \<open>
  The restoring statements make no call on \<^verbatim>\<open>window.history\<close>: they always
  return, and they touch neither the stack nor the flags of the exit guard.
\<close>

lemma restore_run:
  "\<exists>s''. run throws (restore s e) s' = Inr s''
     \<and> physical s'' = physical s' \<and> navStack s'' = navStack s'
     \<and> allowExitRef s'' = allowExitRef s'
     \<and> exitConfirmationShownRef s'' = exitConfirmationShownRef s'
     \<and> showExitConfirmation s'' = showExitConfirmation s'"
  by (cases e) (simp_all split: option.split)

lemma restore_trace:
  "guard_exclusive s' \<Longrightarrow> list_all guard_exclusive (trace throws (restore s e) s')"
  by (cases e) (simp_all add: guard_exclusive_def split: option.split)

lemma popState_after:
  "\<exists>s'. state_after (run throws (handlePopState_body s) s) = s'
     \<and> (navStack s' = navStack s
          \<or> (1 < length (navStack s) \<and> navStack s' = butlast (navStack s)))
     \<and> (physical s' = physical s \<or> physical s' = physical s @ [PushState None Href])"
proof -
  obtain s'' where "run throws (restore s (last (butlast (navStack s)))) s = Inr s''"
    and "physical s'' = physical s"
    using restore_run by blast
  then show ?thesis
    by (simp add: handlePopState_body_def Let_def run_append)
qed

text \<open>The floor of the stack is kept by every event.\<close>

lemma has_floor_append: "has_floor st \<Longrightarrow> has_floor (st @ [e])"
  by (cases st) (simp_all add: has_floor_def)

lemma has_floor_butlast: "has_floor st \<Longrightarrow> 1 < length st \<Longrightarrow> has_floor (butlast st)"
  by (cases st) (auto simp add: has_floor_def split: list.splits)

lemma step_floor:
  assumes "has_floor (navStack s)"
  shows "has_floor (navStack (state_after (run throws (body ev s) s)))"
proof (cases ev)
  case PopState
  then show ?thesis
    using popState_after [of throws s] assms by (auto simp: has_floor_butlast)
next
  case Logout
  then show ?thesis by (simp add: handleLogout_body_def has_floor_def)
qed (use assms in \<open>simp_all add: body_defs has_floor_append split: option.split\<close>)

lemma deliver_floor:
  "has_floor (navStack s) \<Longrightarrow> has_floor (navStack (deliver throws evs s))"
  by (induction evs arbitrary: s) (simp_all add: step_floor)

text \<open>The two flags stay exclusive through every statement of every event.\<close>

lemma step_guard:
  assumes "guard_exclusive s"
  shows "list_all guard_exclusive (trace throws (body ev s) s)
         \<and> guard_exclusive (state_after (run throws (body ev s) s))"
proof (cases ev)
  case PopState
  obtain s'' where r: "run throws (restore s (last (butlast (navStack s)))) s = Inr s''"
    and k: "allowExitRef s'' = allowExitRef s"
      "exitConfirmationShownRef s'' = exitConfirmationShownRef s"
    using restore_run by blast
  have g: "guard_exclusive s''"
    using assms k by (simp add: guard_exclusive_def)
  show ?thesis
    using PopState assms r g restore_trace [OF assms, of throws s]
    by (simp add: handlePopState_body_def Let_def run_append list_all_trace_append
          guard_exclusive_def)
qed (use assms in \<open>simp_all add: body_defs guard_exclusive_def split: option.split\<close>)

lemma instants_guard:
  "guard_exclusive s \<Longrightarrow> list_all guard_exclusive (instants throws evs s)"
  by (induction evs arbitrary: s) (simp_all add: step_guard)

text \<open>Every \<^verbatim>\<open>pushState\<close> call is of exactly one of the three kinds.\<close>

lemma push_kinds:
  "(if is_push h then 1 else 0 :: nat) =
     (if is_nav_push h then 1 else 0) + (if is_fragment_push h then 1 else 0)
     + (if is_trap_push h then 1 else 0)"
proof (cases h)
  case (PushState payload u)
  then show ?thesis by (cases payload; cases u) simp_all
qed simp_all

lemma counted_pushes_split:
  "counted_pushes log = count_ops is_nav_push log + count_ops is_fragment_push log"
proof -
  have "count_ops is_push log =
          count_ops is_nav_push log + count_ops is_fragment_push log
          + count_ops is_trap_push log"
  proof (induction log)
    case Nil
    then show ?case by (simp add: count_ops_def)
  next
    case (Cons h log)
    then show ?case
      using push_kinds [of h] by (simp add: count_ops_def split: if_splits)
  qed
  then show ?thesis by (simp add: counted_pushes_def)
qed

text \<open>What one event adds to the stack and to the pushes that carry an entry.\<close>

lemma step_counts:
  fixes s ev
  defines "s' \<equiv> state_after (run history_works (body ev s) s)"
  defines "k \<equiv> (if calls_pushNavState ev then 1 else 0 :: nat)"
  assumes "has_floor (navStack s)"
  shows "count_ops is_nav_push (physical s') = count_ops is_nav_push (physical s) + k
     \<and> length (navStack s') \<le> length (navStack s) + k
     \<and> (\<not> shrinks_stack ev \<longrightarrow> length (navStack s') = length (navStack s) + k)"
proof (cases ev)
  case PopState
  then show ?thesis
    using popState_after [of history_works s]
    by (auto simp add: s'_def k_def count_ops_def)
next
  case Logout
  have "navStack s \<noteq> []"
    using assms(3) by (auto simp add: has_floor_def)
  then have "1 \<le> length (navStack s)"
    by (cases "navStack s") simp_all
  with Logout show ?thesis
    by (simp add: s'_def k_def body_defs)
qed (simp_all add: s'_def k_def body_defs history_works_def count_ops_def split: option.split)

lemma deliver_counts:
  "has_floor (navStack s) \<Longrightarrow>
   count_ops is_nav_push (physical (deliver history_works evs s))
     = count_ops is_nav_push (physical s) + length (filter calls_pushNavState evs)
   \<and> length (navStack (deliver history_works evs s))
       \<le> length (navStack s) + length (filter calls_pushNavState evs)
   \<and> (list_all (\<lambda>ev. \<not> shrinks_stack ev) evs \<longrightarrow>
        length (navStack (deliver history_works evs s))
          = length (navStack s) + length (filter calls_pushNavState evs))"
proof (induction evs arbitrary: s)
  case Nil
  then show ?case by simp
next
  case (Cons ev evs)
  have "has_floor (navStack (state_after (run history_works (body ev s) s)))"
    using Cons.prems by (rule step_floor)
  then show ?case
    using Cons.IH [of "state_after (run history_works (body ev s) s)"]
      step_counts [OF Cons.prems, of ev]
    by (auto split: if_splits)
qed

text \<open>Which event adds a fragment push or a trap push to the physical history.\<close>

lemma step_issuers:
  fixes s ev
  defines "s' \<equiv> state_after (run history_works (body ev s) s)"
  shows "count_ops is_fragment_push (physical s')
           = count_ops is_fragment_push (physical s)
             + (if issues_fragment_push ev s then 1 else 0)
     \<and> count_ops is_trap_push (physical s')
           = count_ops is_trap_push (physical s) + (if issues_trap_push ev s then 1 else 0)"
proof (cases ev)
  case PopState
  obtain s'' where "run history_works (restore s (last (butlast (navStack s)))) s = Inr s''"
    and "physical s'' = physical s"
    using restore_run by blast
  with PopState show ?thesis
    by (simp add: s'_def handlePopState_body_def Let_def run_append history_works_def
          count_ops_def)
qed (simp_all add: s'_def body_defs history_works_def count_ops_def split: option.split)

lemma issuers_bound:
  "(if issues_fragment_push ev s then 1 else 0 :: nat)
     \<le> (if runs_selectedProductEffect ev then 1 else 0)
   \<and> (if issues_trap_push ev s then 1 else 0 :: nat) \<le> (if may_trap ev then 1 else 0)"
  by (cases ev) simp_all

lemma deliver_issuers:
  "count_ops is_fragment_push (physical (deliver history_works evs s))
     \<le> count_ops is_fragment_push (physical s)
        + length (filter runs_selectedProductEffect evs)
   \<and> count_ops is_trap_push (physical (deliver history_works evs s))
     \<le> count_ops is_trap_push (physical s) + length (filter may_trap evs)"
proof (induction evs arbitrary: s)
  case Nil
  then show ?case by simp
next
  case (Cons ev evs)
  show ?case
    using Cons.IH [of "state_after (run history_works (body ev s) s)"]
      step_issuers [of ev s] issuers_bound [of ev s]
    by (auto split: if_splits)
qed

lemma effect_keeps_stack:
  "navStack (state_after (run throws (selectedProductEffect hash s) s)) = navStack s"
  by (simp add: selectedProductEffect_def split: option.split)

text \<open>The two variants execute the same statements.\<close>

lemma part000_restore_eq: "part000_restore s e = restore s e"
  by (cases e) simp_all

lemma part000_body_eq: "part000_body ev s = body ev s"
  by (cases ev) (simp_all add: body_defs part000_body_defs part000_restore_eq Let_def)

subsection \<open>The back/forward handler\<close>

text \<open>
  Claim C1. On a \<^verbatim>\<open>popstate\<close> notification (with a history whose trap push
  returns) the handler returns, and what it did is decided in this order. If
  \<open>allowExitRef\<close> is set, it clears that flag and nothing else changes. Otherwise, if
  \<open>exitConfirmationShownRef\<close> is set, it clears it, hides the dialog, makes one trap
  push and leaves the stack alone. Otherwise, if the stack has at most one entry, it
  sets \<open>exitConfirmationShownRef\<close>, shows the dialog, makes one trap push and leaves
  the stack alone. Otherwise it removes exactly the last entry of the stack, makes no
  call on \<^verbatim>\<open>window.history\<close>, leaves the flags clear, and restores the new top:
  for \<open>Home\<close> the home tab is selected, the product view cleared, the CMS closed and,
  in an affiliate session, the affiliate tab set to home; for \<open>Tab v\<close> the tab
  \<open>v\<close> is selected, the product view cleared and the CMS closed; for \<open>Product i\<close>
  the first product of the catalog with that id is selected, or, if there is none, the
  product view is cleared and the home tab selected; for \<open>Cms\<close> the CMS is opened
  in an administrator session; for \<open>AffiliateTab t\<close> the affiliate tab is set to
  \<open>t\<close> in an affiliate session; and nothing else changes.
\<close>

theorem handlePopState_priority:
  assumes "\<not> throws (PushState None Href)"
  shows "\<exists>s'. handlePopState throws s = Inr s' \<and>
    (if allowExitRef s then s' = s\<lparr>allowExitRef := False\<rparr>
     else if exitConfirmationShownRef s then
       s' = s\<lparr>exitConfirmationShownRef := False, showExitConfirmation := False,
              physical := physical s @ [PushState None Href]\<rparr>
     else if length (navStack s) \<le> 1 then
       s' = s\<lparr>exitConfirmationShownRef := True, showExitConfirmation := True,
              physical := physical s @ [PushState None Href]\<rparr>
     else
       navStack s' = butlast (navStack s)
       \<and> navStack s = navStack s' @ [last (navStack s)]
       \<and> physical s' = physical s
       \<and> allowExitRef s' = False
       \<and> exitConfirmationShownRef s' = False
       \<and> showExitConfirmation s' = showExitConfirmation s
       \<and> (case last (navStack s') of
            Home \<Rightarrow>
              s' = s\<lparr>activeTab := ''home'', selectedProduct := None, showCMS := False,
                     affiliateActiveTab :=
                       (if isAffiliate s then ''home'' else affiliateActiveTab s),
                     navStack := butlast (navStack s)\<rparr>
          | Tab v \<Rightarrow>
              s' = s\<lparr>activeTab := v, selectedProduct := None, showCMS := False,
                     navStack := butlast (navStack s)\<rparr>
          | Product i \<Rightarrow>
              (case find (\<lambda>p. product_id p = i) (products s) of
                 Some p \<Rightarrow>
                   s' = s\<lparr>selectedProduct := Some p, navStack := butlast (navStack s)\<rparr>
               | None \<Rightarrow>
                   s' = s\<lparr>selectedProduct := None, activeTab := ''home'',
                          navStack := butlast (navStack s)\<rparr>)
          | Cms \<Rightarrow>
              s' = s\<lparr>showCMS := (if isAdmin s then True else showCMS s),
                     navStack := butlast (navStack s)\<rparr>
          | AffiliateTab t \<Rightarrow>
              s' = s\<lparr>affiliateActiveTab :=
                       (if isAffiliate s then t else affiliateActiveTab s),
                     navStack := butlast (navStack s)\<rparr>))"
proof -
  have snoc: "1 < length (navStack s) \<Longrightarrow>
      navStack s = butlast (navStack s) @ [last (navStack s)]"
    by (cases "navStack s" rule: rev_cases) simp_all
  show ?thesis
  proof (cases "last (butlast (navStack s))")
    case (Product i)
    then show ?thesis
      using assms snoc
      by (cases "find (\<lambda>p. product_id p = i) (products s)")
         (simp_all add: handlePopState_def handlePopState_body_def Let_def run_append)
  qed (use assms snoc in
        \<open>simp_all add: handlePopState_def handlePopState_body_def Let_def run_append\<close>)
qed

theorem handlePopState_priority_witness:
  "(\<exists>s'. handlePopState history_works
            ((initial [] False False False None)\<lparr>allowExitRef := True\<rparr>) = Inr s'
        \<and> s' = initial [] False False False None)
   \<and> (\<exists>s'. handlePopState history_works (initial [] False False False None) = Inr s'
        \<and> exitConfirmationShownRef s' \<and> showExitConfirmation s'
        \<and> navStack s' = [Home] \<and> physical s' = [PushState None Href])
   \<and> (\<exists>s'. handlePopState history_works
            ((initial [] False False False None)
               \<lparr>navStack := [Home, Tab ''cart'', Product 42],
                 selectedProduct := Some \<lparr>product_id = 42, product_name = ''lamp''\<rparr>\<rparr>)
          = Inr s'
        \<and> navStack s' = [Home, Tab ''cart''] \<and> activeTab s' = ''cart''
        \<and> selectedProduct s' = None \<and> showCMS s' = False \<and> physical s' = [])
   \<and> (\<exists>s'. handlePopState history_works
            ((initial [] True True False None)
               \<lparr>navStack := [Home, Cms, Tab ''account''], activeTab := ''account''\<rparr>)
          = Inr s'
        \<and> navStack s' = [Home, Cms] \<and> showCMS s' = True \<and> activeTab s' = ''account'')"
proof -
  have w: "\<not> history_works (PushState None Href)"
    by (simp add: history_works_def)
  have "\<exists>s'. handlePopState history_works
            ((initial [] False False False None)\<lparr>allowExitRef := True\<rparr>) = Inr s'
        \<and> s' = initial [] False False False None"
    using handlePopState_priority [of history_works
            "(initial [] False False False None)\<lparr>allowExitRef := True\<rparr>", OF w]
    by (simp add: initial_def)
  moreover
  have "\<exists>s'. handlePopState history_works (initial [] False False False None) = Inr s'
        \<and> exitConfirmationShownRef s' \<and> showExitConfirmation s'
        \<and> navStack s' = [Home] \<and> physical s' = [PushState None Href]"
    using handlePopState_priority [of history_works
            "initial [] False False False None", OF w]
    by (simp add: initial_def)
  moreover
  have "\<exists>s'. handlePopState history_works
            ((initial [] False False False None)
               \<lparr>navStack := [Home, Tab ''cart'', Product 42],
                 selectedProduct := Some \<lparr>product_id = 42, product_name = ''lamp''\<rparr>\<rparr>)
          = Inr s'
        \<and> navStack s' = [Home, Tab ''cart''] \<and> activeTab s' = ''cart''
        \<and> selectedProduct s' = None \<and> showCMS s' = False \<and> physical s' = []"
  proof -
    let ?s = "(initial [] False False False None)
               \<lparr>navStack := [Home, Tab ''cart'', Product 42],
                 selectedProduct := Some \<lparr>product_id = 42, product_name = ''lamp''\<rparr>\<rparr>"
    have c: "\<not> allowExitRef ?s" "\<not> exitConfirmationShownRef ?s"
      "\<not> length (navStack ?s) \<le> 1"
      "butlast (navStack ?s) = [Home, Tab ''cart'']" "physical ?s = []"
      by (simp_all add: initial_def)
    show ?thesis
      using handlePopState_priority [of history_works ?s, OF w]
      unfolding if_not_P [OF c(1)] if_not_P [OF c(2)] if_not_P [OF c(3)] c(4) c(5)
      by (elim exE conjE) (simp add: initial_def)
  qed
  moreover
  have "\<exists>s'. handlePopState history_works
            ((initial [] True True False None)
               \<lparr>navStack := [Home, Cms, Tab ''account''], activeTab := ''account''\<rparr>)
          = Inr s'
        \<and> navStack s' = [Home, Cms] \<and> showCMS s' = True \<and> activeTab s' = ''account''"
  proof -
    let ?s = "(initial [] True True False None)
               \<lparr>navStack := [Home, Cms, Tab ''account''], activeTab := ''account''\<rparr>"
    have c: "\<not> allowExitRef ?s" "\<not> exitConfirmationShownRef ?s"
      "\<not> length (navStack ?s) \<le> 1"
      "butlast (navStack ?s) = [Home, Cms]" "physical ?s = []"
      by (simp_all add: initial_def)
    show ?thesis
      using handlePopState_priority [of history_works ?s, OF w]
      unfolding if_not_P [OF c(1)] if_not_P [OF c(2)] if_not_P [OF c(3)] c(4) c(5)
      by (elim exE conjE) (simp add: initial_def)
  qed
  ultimately show ?thesis by blast
qed

subsection \<open>The floor of the stack\<close>

text \<open>
  Claim C2. From the state of a freshly loaded page, after any sequence of events
  (calls of \<^verbatim>\<open>pushNavState\<close> and \<^verbatim>\<open>navigateTo\<close>, back notifications, the buttons
  of the exit dialog, logouts, product clicks, runs of the effects), whether or not the
  history calls throw, \<open>navStack\<close> is not empty and its element at index 0 is \<open>Home\<close>.
\<close>

theorem navStack_floor:
  "navStack (deliver throws evs (initial ps l a f u)) \<noteq> []
   \<and> navStack (deliver throws evs (initial ps l a f u)) ! 0 = Home"
proof -
  have "has_floor (navStack (initial ps l a f u))"
    by (simp add: initial_def has_floor_def)
  then have "has_floor (navStack (deliver throws evs (initial ps l a f u)))"
    by (rule deliver_floor)
  then show ?thesis
    by (cases "navStack (deliver throws evs (initial ps l a f u))")
       (simp_all add: has_floor_def)
qed

subsection \<open>The two flags of the exit guard\<close>

text \<open>
  Claim C3. If \<open>allowExitRef\<close> and \<open>exitConfirmationShownRef\<close> are not both set in a
  state, then in every state the page passes through while any sequence of events is
  handled from it (one state after each statement of each handler, whether or not the
  history calls throw) they are not both set. This holds of the freshly loaded page,
  where both are clear. Since the states after each single statement are covered, no
  handler sets one flag while the other is set: \<^verbatim>\<open>handleExitConfirm\<close> clears
  \<open>exitConfirmationShownRef\<close> before it sets \<open>allowExitRef\<close>, and
  \<^verbatim>\<open>handlePopState\<close> sets \<open>exitConfirmationShownRef\<close> only on the path where it
  found \<open>allowExitRef\<close> clear.
\<close>

theorem exit_flags_exclusive:
  assumes "\<not> (allowExitRef s \<and> exitConfirmationShownRef s)"
  shows "\<forall>s' \<in> set (instants throws evs s).
           \<not> (allowExitRef s' \<and> exitConfirmationShownRef s')"
  using instants_guard [of s throws evs] assms
  by (simp add: guard_exclusive_def list_all_iff)

theorem exit_flags_exclusive_witness:
  "map (\<lambda>s'. (allowExitRef s', exitConfirmationShownRef s'))
        (trace history_works handleExitConfirm_body
           (deliver history_works [PopState] (initial [] False False False None)))
     = [(False, True), (False, False), (False, False), (True, False), (True, False)]
   \<and> list_all (\<lambda>s'. \<not> (allowExitRef s' \<and> exitConfirmationShownRef s'))
        (instants history_works [PopState, ExitConfirm, PopState]
           (initial [] False False False None))"
  using exit_flags_exclusive [of "initial [] False False False None" history_works
          "[PopState, ExitConfirm, PopState]"]
  by (simp add: body_defs history_works_def initial_def list_all_iff)

subsection \<open>Logout\<close>

text \<open>
  Claim C4, as amended. In every state, \<^verbatim>\<open>handleLogout\<close> returns; it sets
  \<open>navStack\<close> to exactly \<open>[Home]\<close>, ends the session, closes the CMS, selects the
  home tabs and opens the "Logged Out" modal. It leaves \<open>allowExitRef\<close>,
  \<open>exitConfirmationShownRef\<close> and the visible exit dialog as they were, and makes no
  history call: the exit guard is idle afterwards exactly when it was idle before.
\<close>

theorem handleLogout_effect:
  "\<exists>s'. handleLogout throws s = Inr s'
     \<and> navStack s' = [Home]
     \<and> allowExitRef s' = allowExitRef s
     \<and> exitConfirmationShownRef s' = exitConfirmationShownRef s
     \<and> showExitConfirmation s' = showExitConfirmation s
     \<and> physical s' = physical s
     \<and> s' = s\<lparr>isLoggedIn := False, isAdmin := False, isAffiliate := False,
                 currentUser := None, showCMS := False, activeTab := ''home'',
                 affiliateActiveTab := ''home'', navStack := [Home],
                 modal := \<lparr>isOpen = True, title = ''Logged Out'',
                            message = ''You have been successfully logged out.'',
                            mtype = ''info''\<rparr>\<rparr>"
  by (simp add: handleLogout_def handleLogout_body_def)

text \<open>
  Claim C4 as stated fails. A back notification on the fresh page shows the exit
  dialog; a logout in that state leaves \<open>exitConfirmationShownRef\<close> and the dialog
  set. After the dialog's "YES", a logout leaves \<open>allowExitRef\<close> set.
\<close>

theorem logout_clears_guard_counterexample:
  "exitConfirmationShownRef
     (state_after (handleLogout history_works
        (deliver history_works [PopState] (initial [] True False False None))))
   \<and> showExitConfirmation
     (state_after (handleLogout history_works
        (deliver history_works [PopState] (initial [] True False False None))))
   \<and> allowExitRef
     (state_after (handleLogout history_works
        (deliver history_works [PopState, ExitConfirm] (initial [] True False False None))))"
  by (simp add: handleLogout_def body_defs history_works_def initial_def)

subsection \<open>The stack and the physical history\<close>

text \<open>
  Claim C5, as amended. On a page whose history calls return, after any sequence of
  events from the fresh page (a page loaded at a product address included): the number
  of physical pushes that carry an entry equals the number of calls of
  \<^verbatim>\<open>pushNavState\<close>; the length of \<open>navStack\<close> is at most one (the seeded
  \<open>Home\<close>) plus that number, and equal to it as long as no back notification and no
  logout has been handled; the physical pushes other than trap pushes are those pushes
  together with the fragment pushes; there are at most as many fragment pushes as runs
  of the effect on \<^verbatim>\<open>[selectedProduct]\<close>, and at most as many trap pushes as back
  notifications and "NO" clicks. In every state, an event adds one fragment push
  exactly when it is a run of that effect with a product selected or a product
  fragment in the address, and otherwise none; it adds one trap push exactly when it
  is a "NO" click, or a back notification that finds \<open>allowExitRef\<close> clear and the
  dialog showing or the stack at its floor, and otherwise none; and a run of the
  effect leaves \<open>navStack\<close> as it is.
\<close>

theorem navStack_length_accounting:
  fixes evs ps l a f u ev s hash
  defines "final \<equiv> deliver history_works evs (initial ps l a f u)"
  defines "s' \<equiv> state_after (run history_works (body ev s) s)"
  shows "count_ops is_nav_push (physical final) = length (filter calls_pushNavState evs)
   \<and> length (navStack final) \<le> 1 + count_ops is_nav_push (physical final)
   \<and> (\<not> list_ex shrinks_stack evs \<longrightarrow>
        length (navStack final) = 1 + count_ops is_nav_push (physical final))
   \<and> counted_pushes (physical final)
       = count_ops is_nav_push (physical final) + count_ops is_fragment_push (physical final)
   \<and> count_ops is_fragment_push (physical final)
       \<le> length (filter runs_selectedProductEffect evs)
   \<and> count_ops is_trap_push (physical final) \<le> length (filter may_trap evs)
   \<and> count_ops is_fragment_push (physical s')
       = count_ops is_fragment_push (physical s)
         + (if issues_fragment_push ev s then 1 else 0)
   \<and> count_ops is_trap_push (physical s')
       = count_ops is_trap_push (physical s) + (if issues_trap_push ev s then 1 else 0)
   \<and> navStack (state_after (run history_works (selectedProductEffect hash s) s))
       = navStack s"
proof -
  have i: "physical (initial ps l a f u) = []" "navStack (initial ps l a f u) = [Home]"
    by (simp_all add: initial_def)
  have e: "list_all (\<lambda>ev. \<not> shrinks_stack ev) evs = (\<not> list_ex shrinks_stack evs)"
    by (simp add: list_all_iff list_ex_iff)
  have "has_floor (navStack (initial ps l a f u))"
    by (simp add: initial_def has_floor_def)
  then have acc:
    "count_ops is_nav_push (physical final) = length (filter calls_pushNavState evs)
     \<and> length (navStack final) \<le> 1 + count_ops is_nav_push (physical final)
     \<and> (\<not> list_ex shrinks_stack evs \<longrightarrow>
          length (navStack final) = 1 + count_ops is_nav_push (physical final))"
    using deliver_counts [of "initial ps l a f u" evs]
    by (simp add: i e final_def count_ops_def)
  have iss: "count_ops is_fragment_push (physical final)
       \<le> length (filter runs_selectedProductEffect evs)
     \<and> count_ops is_trap_push (physical final) \<le> length (filter may_trap evs)"
    using deliver_issuers [of evs "initial ps l a f u"]
    by (simp add: i final_def count_ops_def)
  show ?thesis
    using acc iss counted_pushes_split [of "physical final"] step_issuers [of ev s]
      effect_keeps_stack [of history_works hash s]
    by (simp add: s'_def)
qed

theorem navStack_length_accounting_witness:
  "length (navStack (deliver history_works
        [CheckUrlHash ''#product-7'' (Some 7), SelectedProductEffect ''#product-7'',
         NavigateTo ''cart'', PushNavState Cms]
        (initial [\<lparr>product_id = 7, product_name = ''lamp''\<rparr>] False False False None))) = 3
   \<and> count_ops is_nav_push (physical (deliver history_works
        [CheckUrlHash ''#product-7'' (Some 7), SelectedProductEffect ''#product-7'',
         NavigateTo ''cart'', PushNavState Cms]
        (initial [\<lparr>product_id = 7, product_name = ''lamp''\<rparr>] False False False None))) = 2
   \<and> count_ops is_fragment_push (physical (deliver history_works
        [CheckUrlHash ''#product-7'' (Some 7), SelectedProductEffect ''#product-7'',
         NavigateTo ''cart'', PushNavState Cms]
        (initial [\<lparr>product_id = 7, product_name = ''lamp''\<rparr>] False False False None))) \<le> 1
   \<and> count_ops is_trap_push (physical (state_after (run history_works
        (body PopState (initial [] False False False None))
        (initial [] False False False None)))) = 1"
  using navStack_length_accounting [where
        evs = "[CheckUrlHash ''#product-7'' (Some 7), SelectedProductEffect ''#product-7'',
                NavigateTo ''cart'', PushNavState Cms]"
        and ps = "[\<lparr>product_id = 7, product_name = ''lamp''\<rparr>]"
        and l = False and a = False and f = False and u = None
        and ev = PopState and s = "initial [] False False False None"]
  by (simp add: initial_def count_ops_def)

text \<open>
  Claim C5 as stated fails. On the fresh page the stack has one entry and no push has
  been made. After a click on product 7, the run of the effect that follows, a switch to
  the cart tab and the run of the effect that follows (the address then ends in
  \<^verbatim>\<open>#product-7\<close>), the stack has three entries, while four physical pushes that
  are not trap pushes were made: two by \<^verbatim>\<open>pushNavState\<close> and two by the effect.
\<close>

theorem navStack_length_counterexample:
  "length (navStack (initial [\<lparr>product_id = 7, product_name = ''lamp''\<rparr>]
      False False False None)) = 1
   \<and> counted_pushes (physical (initial [\<lparr>product_id = 7, product_name = ''lamp''\<rparr>]
      False False False None)) = 0
   \<and> length (navStack (deliver history_works
        [ProductClick \<lparr>product_id = 7, product_name = ''lamp''\<rparr>, SelectedProductEffect [],
         NavigateTo ''cart'', SelectedProductEffect ''#product-7'']
        (initial [\<lparr>product_id = 7, product_name = ''lamp''\<rparr>] False False False None))) = 3
   \<and> counted_pushes (physical (deliver history_works
        [ProductClick \<lparr>product_id = 7, product_name = ''lamp''\<rparr>, SelectedProductEffect [],
         NavigateTo ''cart'', SelectedProductEffect ''#product-7'']
        (initial [\<lparr>product_id = 7, product_name = ''lamp''\<rparr>] False False False None))) = 4
   \<and> count_ops is_fragment_push (physical (deliver history_works
        [ProductClick \<lparr>product_id = 7, product_name = ''lamp''\<rparr>, SelectedProductEffect [],
         NavigateTo ''cart'', SelectedProductEffect ''#product-7'']
        (initial [\<lparr>product_id = 7, product_name = ''lamp''\<rparr>] False False False None))) = 2"
  by (simp add: body_defs history_works_def initial_def counted_pushes_def count_ops_def
        startsWith_def)

subsection \<open>A history that throws\<close>

text \<open>
  Claim C6, as amended. No call on \<^verbatim>\<open>window.history\<close> is guarded. When the call
  throws, the exception leaves \<^verbatim>\<open>pushNavState\<close>, \<^verbatim>\<open>handleExitConfirm\<close>,
  \<^verbatim>\<open>handleExitCancel\<close> and, where the exit dialog is showing, \<^verbatim>\<open>handlePopState\<close>.
  The assignments made before the call stay: the entry is appended to \<open>navStack\<close>,
  the dialog flags are cleared, and \<^verbatim>\<open>handleExitConfirm\<close> has set \<open>allowExitRef\<close>.
  No physical operation is recorded. Where \<open>allowExitRef\<close> is set,
  \<^verbatim>\<open>handlePopState\<close> makes no history call and returns as usual.
\<close>

theorem history_failure_propagates:
  assumes "throws (PushState (Some e) Href)" and "throws (PushState None Href)"
    and "throws Back"
  shows "pushNavState throws e s
           = Inl (HistoryError (PushState (Some e) Href), s\<lparr>navStack := navStack s @ [e]\<rparr>)
       \<and> handleExitConfirm throws s
           = Inl (HistoryError Back,
                  s\<lparr>exitConfirmationShownRef := False, showExitConfirmation := False,
                    allowExitRef := True\<rparr>)
       \<and> handleExitCancel throws s
           = Inl (HistoryError (PushState None Href),
                  s\<lparr>exitConfirmationShownRef := False, showExitConfirmation := False\<rparr>)
       \<and> handlePopState throws (s\<lparr>allowExitRef := False, exitConfirmationShownRef := True\<rparr>)
           = Inl (HistoryError (PushState None Href),
                  s\<lparr>allowExitRef := False, exitConfirmationShownRef := False,
                    showExitConfirmation := False\<rparr>)
       \<and> handlePopState throws (s\<lparr>allowExitRef := True\<rparr>)
           = Inr (s\<lparr>allowExitRef := False\<rparr>)"
  using assms
  by (simp add: pushNavState_def handleExitConfirm_def handleExitCancel_def
        handlePopState_def body_defs)

theorem history_failure_propagates_witness:
  "pushNavState history_broken Cms (initial [] True True False None)
           = Inl (HistoryError (PushState (Some Cms) Href),
                  (initial [] True True False None)\<lparr>navStack := [Home, Cms]\<rparr>)
   \<and> handleExitConfirm history_broken (initial [] True True False None)
           = Inl (HistoryError Back, (initial [] True True False None)\<lparr>allowExitRef := True\<rparr>)"
  using history_failure_propagates [of history_broken Cms "initial [] True True False None"]
  by (simp add: history_broken_def initial_def)

text \<open>
  Claim C6 as stated fails. With a history whose calls throw, \<^verbatim>\<open>pushNavState\<close> on
  the fresh page does not return: the exception of \<^verbatim>\<open>pushState\<close> leaves it (the
  entry is on the stack by then).
\<close>

theorem history_failure_counterexample:
  "pushNavState history_broken (Tab ''cart'') (initial [] False False False None)
   = Inl (HistoryError (PushState (Some (Tab ''cart'')) Href),
          (initial [] False False False None)\<lparr>navStack := [Home, Tab ''cart'']\<rparr>)"
  by (simp add: pushNavState_def body_defs history_broken_def initial_def)

subsection \<open>Restoring a product entry\<close>

text \<open>
  Claim C7. When the exit guard is idle and a back notification pops an entry that
  lies on a \<open>Product i\<close> entry, the handler returns (it makes no history call, so it
  cannot throw) and the stack ends in that product entry. If some product of the
  catalog has the id \<open>i\<close>, the selected product is the first such product and the
  active tab is left as it was; if none has, the product view is cleared and the home
  tab is selected.
\<close>

theorem popState_restores_product:
  assumes "\<not> allowExitRef s" and "\<not> exitConfirmationShownRef s"
    and "navStack s = st @ [Product i, e]"
  shows "\<exists>s'. handlePopState throws s = Inr s'
     \<and> navStack s' = st @ [Product i]
     \<and> physical s' = physical s
     \<and> (if i \<in> product_id ` set (products s)
         then (\<exists>p. selectedProduct s' = Some p \<and> product_id p = i \<and> p \<in> set (products s)
                \<and> find (\<lambda>p. product_id p = i) (products s) = Some p)
              \<and> activeTab s' = activeTab s
         else selectedProduct s' = None \<and> activeTab s' = ''home'')"
proof (cases "find (\<lambda>p. product_id p = i) (products s)")
  case None
  then have "i \<notin> product_id ` set (products s)"
    by (auto simp add: find_None_iff)
  with None assms show ?thesis
    by (simp add: handlePopState_def handlePopState_body_def Let_def butlast_append)
next
  case (Some p)
  then have "product_id p = i" "p \<in> set (products s)"
    by (auto simp add: find_Some_iff)
  with Some assms show ?thesis
    by (auto simp add: handlePopState_def handlePopState_body_def Let_def butlast_append)
qed

theorem popState_restores_product_witness:
  "(\<exists>s'. handlePopState history_works
        ((initial [\<lparr>product_id = 7, product_name = ''lamp''\<rparr>] False False False None)
           \<lparr>navStack := [Home, Product 7, Tab ''cart''], activeTab := ''cart''\<rparr>) = Inr s'
      \<and> navStack s' = [Home, Product 7]
      \<and> selectedProduct s' = Some \<lparr>product_id = 7, product_name = ''lamp''\<rparr>)
   \<and> (\<exists>s'. handlePopState history_works
        ((initial [] False False False None)
           \<lparr>navStack := [Home, Product 7, Tab ''cart''], activeTab := ''cart''\<rparr>) = Inr s'
      \<and> navStack s' = [Home, Product 7]
      \<and> selectedProduct s' = None \<and> activeTab s' = ''home'')"
proof -
  let ?found = "(initial [\<lparr>product_id = 7, product_name = ''lamp''\<rparr>] False False False None)
           \<lparr>navStack := [Home, Product 7, Tab ''cart''], activeTab := ''cart''\<rparr>"
  let ?gone = "(initial [] False False False None)
           \<lparr>navStack := [Home, Product 7, Tab ''cart''], activeTab := ''cart''\<rparr>"
  have f: "\<not> allowExitRef ?found" "\<not> exitConfirmationShownRef ?found"
    "navStack ?found = [Home] @ [Product 7, Tab ''cart'']"
    and g: "\<not> allowExitRef ?gone" "\<not> exitConfirmationShownRef ?gone"
    "navStack ?gone = [Home] @ [Product 7, Tab ''cart'']"
    by (simp_all add: initial_def)
  have "products ?found = [\<lparr>product_id = 7, product_name = ''lamp''\<rparr>]"
    and "products ?gone = []"
    by (simp_all add: initial_def)
  then show ?thesis
    using popState_restores_product [OF f, of history_works]
      popState_restores_product [OF g, of history_works]
    by auto
qed

subsection \<open>Cancelling the exit twice\<close>

text \<open>
  Claim C8, as amended. With a history whose trap push returns, two calls of
  \<^verbatim>\<open>handleExitCancel\<close> in a row both return. The state after the second call is
  the state after the first one in every component but the physical history: the
  second call makes a trap push of its own, so two trap pushes are made across the
  pair.
\<close>

theorem handleExitCancel_twice:
  assumes "\<not> throws (PushState None Href)"
  shows "\<exists>s1 s2. handleExitCancel throws s = Inr s1
     \<and> handleExitCancel throws s1 = Inr s2
     \<and> s1 = s\<lparr>exitConfirmationShownRef := False, showExitConfirmation := False,
                 physical := physical s @ [PushState None Href]\<rparr>
     \<and> s2 = s1\<lparr>physical := physical s1 @ [PushState None Href]\<rparr>
     \<and> physical s2 = physical s @ [PushState None Href, PushState None Href]"
  using assms by (simp add: handleExitCancel_def handleExitCancel_body_def)

theorem handleExitCancel_twice_witness:
  "\<exists>s1 s2. handleExitCancel history_works
              (deliver history_works [PopState] (initial [] False False False None)) = Inr s1
     \<and> handleExitCancel history_works s1 = Inr s2
     \<and> navStack s2 = [Home] \<and> \<not> exitConfirmationShownRef s2 \<and> \<not> showExitConfirmation s2
     \<and> physical s1 = [PushState None Href, PushState None Href]
     \<and> physical s2 = [PushState None Href, PushState None Href, PushState None Href]"
  using handleExitCancel_twice [of history_works
          "deliver history_works [PopState] (initial [] False False False None)"]
  by (simp add: body_defs history_works_def initial_def)

text \<open>
  Claim C8 as stated fails. With the exit dialog showing on the fresh page, the state
  after two calls of \<^verbatim>\<open>handleExitCancel\<close> differs from the state after one call,
  and the pair has made two trap pushes, not one.
\<close>

theorem cancelExit_idempotent_counterexample:
  "state_after (handleExitCancel history_works (state_after (handleExitCancel history_works
       (deliver history_works [PopState] (initial [] False False False None)))))
   \<noteq> state_after (handleExitCancel history_works
       (deliver history_works [PopState] (initial [] False False False None)))
   \<and> physical (state_after (handleExitCancel history_works
       (state_after (handleExitCancel history_works
         (deliver history_works [PopState] (initial [] False False False None))))))
     = physical (deliver history_works [PopState] (initial [] False False False None))
         @ [PushState None Href, PushState None Href]"
  by (simp add: handleExitCancel_def body_defs history_works_def initial_def)

subsection \<open>What \<^verbatim>\<open>pushNavState\<close> changes\<close>

text \<open>
  Claim C9. In every state, whatever the flags of the exit guard are, a call of
  \<^verbatim>\<open>pushNavState\<close> with an entry (on a history whose push returns) appends that
  one entry to \<open>navStack\<close>, makes exactly one call \<^verbatim>\<open>pushState\<close>, carrying the
  entry, and changes no other component of the state: the two flags, the visible
  dialog, the active tab, the selected product and the CMS flag are as before.
\<close>

theorem pushNavState_frame:
  assumes "\<not> throws (PushState (Some e) Href)"
  shows "pushNavState throws e s =
           Inr (s\<lparr>navStack := navStack s @ [e],
                  physical := physical s @ [PushState (Some e) Href]\<rparr>)"
  using assms by (simp add: pushNavState_def pushNavState_body_def)

theorem pushNavState_frame_witness:
  "pushNavState history_works (Product 7)
     ((initial [] False False False None)\<lparr>exitConfirmationShownRef := True,
        showExitConfirmation := True\<rparr>)
   = Inr ((initial [] False False False None)\<lparr>exitConfirmationShownRef := True,
        showExitConfirmation := True, navStack := [Home, Product 7],
        physical := [PushState (Some (Product 7)) Href]\<rparr>)"
  using pushNavState_frame [of history_works "Product 7"
          "(initial [] False False False None)\<lparr>exitConfirmationShownRef := True,
             showExitConfirmation := True\<rparr>"]
  by (simp add: history_works_def initial_def)

subsection \<open>The two variants\<close>

text \<open>
  Claim C10. The controller of \<^verbatim>\<open>src/unnamed/part_000\<close> and the controller of
  \<^verbatim>\<open>src/script.js\<close> behave alike: on every event in every state they execute the
  same statements (so the same restoring statements on a pop), and after every
  sequence of events from the same state, whether or not the history calls throw, they
  are in the same state, with the same \<open>navStack\<close>, the same two flags and the same
  physical history.
\<close>

theorem variants_equivalent:
  "part000_deliver throws evs s = deliver throws evs s
   \<and> part000_body ev s = body ev s
   \<and> part000_restore s e = restore s e"
proof -
  have "part000_deliver throws evs s = deliver throws evs s"
    by (induction evs arbitrary: s) (simp_all add: part000_body_eq)
  then show ?thesis
    by (simp add: part000_body_eq part000_restore_eq)
qed

end
